theory Spec2Isabelle
  imports Main
begin

section \<open>Data model (src/types.ts)\<close>

text \<open>
  \<^verbatim>\<open>export type Language = 'auto' | 'ku' | 'tr' | 'en';\<close>
  The later revision of the file drops \<^verbatim>\<open>'auto'\<close>; the App of
  src/unnamed/part_000 only ever selects \<open>Ku\<close>, \<open>Tr\<close> and \<open>En\<close>.
\<close>

datatype Language = Auto | Ku | Tr | En

text \<open>\<^verbatim>\<open>type UiLanguage = 'en' | 'tr' | 'ku'\<close> (src/i18n.ts).\<close>

datatype UiLanguage = UiEn | UiTr | UiKu

text \<open>The string value of each literal type, as it appears in a template string.\<close>

fun langCode :: "Language \<Rightarrow> string" where
  "langCode Auto = ''auto''"
| "langCode Ku = ''ku''"
| "langCode Tr = ''tr''"
| "langCode En = ''en''"

fun uiLangCode :: "UiLanguage \<Rightarrow> string" where
  "uiLangCode UiEn = ''en''"
| "uiLangCode UiTr = ''tr''"
| "uiLangCode UiKu = ''ku''"

text \<open>\<^verbatim>\<open>uiLang as Language\<close>: the cast keeps the string.\<close>

fun asLanguage :: "UiLanguage \<Rightarrow> Language" where
  "asLanguage UiEn = En"
| "asLanguage UiTr = Tr"
| "asLanguage UiKu = Ku"

fun languageMap :: "Language \<Rightarrow> string" where
  "languageMap Auto = ''Auto Detect''"
| "languageMap Ku = ''Kurdish''"
| "languageMap Tr = ''Turkish''"
| "languageMap En = ''English''"

text \<open>
  \<^verbatim>\<open>interface TranslationResult\<close>. The interface declares four strings and a string
  array: that is the instance \<open>TypedResult\<close> the App works with. TypeScript erases the
  types, and \<^verbatim>\<open>translateText\<close> fills the fields from an untyped \<^verbatim>\<open>JSON.parse\<close>, so
  the value it builds is the instance \<open>RawResult\<close> over JavaScript values.
\<close>

record ('s, 'l) TranslationResult =
  detectedLanguage :: 's
  correctedSourceText :: 's
  mainTranslation :: 's
  alternativeTranslations :: 'l
  meaningExplanation :: 's

type_synonym TypedResult = "(string, string list) TranslationResult"

section \<open>JavaScript values and strings\<close>

text \<open>
  What \<^verbatim>\<open>JSON.parse\<close> can return, and \<^verbatim>\<open>undefined\<close> for a property that is not
  there. A number is kept as an integer: the code only tests it for being zero.
  Strings are lists of code units below 256.
\<close>

datatype jsval =
    JUndefined
  | JNull
  | JBool bool
  | JNum int
  | JStr string
  | JArr "jsval list"
  | JObj "(string \<times> jsval) list"

type_synonym RawResult = "(jsval, jsval) TranslationResult"

text \<open>
  White space and line terminators of ECMAScript among the code units below 256:
  TAB, LF, VT, FF, CR, SP, NBSP.
\<close>

definition isWhiteSpace :: "char \<Rightarrow> bool" where
  "isWhiteSpace c = (c \<in> set [CHR 0x09, CHR 0x0A, CHR 0x0B, CHR 0x0C, CHR 0x0D, CHR 0x20, CHR 0xA0])"

text \<open>\<^verbatim>\<open>String.prototype.trim\<close>.\<close>

definition trim :: "string \<Rightarrow> string" where
  "trim s = rev (dropWhile isWhiteSpace (rev (dropWhile isWhiteSpace s)))"

text \<open>Truthiness, as \<^verbatim>\<open>!x\<close> and \<^verbatim>\<open>x || d\<close> test it.\<close>

fun truthy :: "jsval \<Rightarrow> bool" where
  "truthy JUndefined = False"
| "truthy JNull = False"
| "truthy (JBool b) = b"
| "truthy (JNum n) = (n \<noteq> 0)"
| "truthy (JStr s) = (s \<noteq> [])"
| "truthy (JArr xs) = True"
| "truthy (JObj kvs) = True"

definition js_or :: "jsval \<Rightarrow> jsval \<Rightarrow> jsval" where
  "js_or x d = (if truthy x then x else d)"

text \<open>
  \<^verbatim>\<open>result.name\<close> for one of the five field names. On \<^verbatim>\<open>null\<close> the access throws
  (\<open>None\<close>); on an object it is the last member of that name, or \<^verbatim>\<open>undefined\<close>; on an
  array or a primitive none of the five names is a property.
\<close>

fun getProp :: "jsval \<Rightarrow> string \<Rightarrow> jsval option" where
  "getProp JUndefined k = None"
| "getProp JNull k = None"
| "getProp (JObj kvs) k = Some (case map_of (rev kvs) k of None \<Rightarrow> JUndefined | Some v \<Rightarrow> v)"
| "getProp v k = Some JUndefined"

section \<open>The translation service (src/services/geminiService.ts, lines 34-124)\<close>

text \<open>
  The request handed to \<^verbatim>\<open>ai.models.generateContent\<close>: the model name and the
  values interpolated into the fixed prompt template.
\<close>

record GenRequest =
  modelName :: string
  sourceLanguageName :: string
  targetLanguageName :: string
  textToTranslate :: string
  uiLanguageName :: string

definition emptyResult :: RawResult where
  "emptyResult = \<lparr> detectedLanguage = JStr [], correctedSourceText = JStr [],
     mainTranslation = JStr [], alternativeTranslations = JArr [],
     meaningExplanation = JStr [] \<rparr>"

definition API_KEY_MISSING :: string where
  "API_KEY_MISSING = ''API_KEY_MISSING''"

definition serviceFailure :: string where
  "serviceFailure = ''Failed to get translation from AI. Please check your API key and try again.''"

text \<open>
  Lines 112-118: the record built from the parsed value \<open>r\<close>; \<open>None\<close> when a property
  access throws, which the surrounding \<^verbatim>\<open>try\<close> catches.
\<close>

definition buildResult :: "string \<Rightarrow> jsval \<Rightarrow> RawResult option" where
  "buildResult text r =
     (case (getProp r ''detectedLanguage'', getProp r ''correctedSourceText'',
            getProp r ''mainTranslation'', getProp r ''alternativeTranslations'',
            getProp r ''meaningExplanation'') of
        (Some dl, Some cs, Some mt, Some al, Some me) \<Rightarrow>
          Some \<lparr> detectedLanguage = js_or dl (JStr []),
                 correctedSourceText = js_or cs (JStr text),
                 mainTranslation = js_or mt (JStr []),
                 alternativeTranslations = js_or al (JArr []),
                 meaningExplanation = js_or me (JStr []) \<rparr>
      | _ \<Rightarrow> None)"

text \<open>
  Lines 98-123. \<open>gen\<close> is the external model together with \<^verbatim>\<open>response.text.trim()\<close>
  and \<^verbatim>\<open>JSON.parse\<close>: \<open>None\<close> when any of them throws, else the parsed value.
  Every exception of the \<^verbatim>\<open>try\<close> block becomes the one service failure.
\<close>

definition callModel :: "(GenRequest \<Rightarrow> jsval option) \<Rightarrow> GenRequest \<Rightarrow> string \<Rightarrow> string + RawResult" where
  "callModel gen req text =
     (case gen req of
        None \<Rightarrow> Inl serviceFailure
      | Some r \<Rightarrow> (case buildResult text r of None \<Rightarrow> Inl serviceFailure | Some res \<Rightarrow> Inr res))"

definition mkRequest :: "string \<Rightarrow> string \<Rightarrow> Language \<Rightarrow> Language \<Rightarrow> UiLanguage \<Rightarrow> GenRequest" where
  "mkRequest m text sourceLang targetLang uiLang =
     \<lparr> modelName = m,
       sourceLanguageName = languageMap sourceLang,
       targetLanguageName = languageMap targetLang,
       textToTranslate = text,
       uiLanguageName = (let n = languageMap (asLanguage uiLang) in if n \<noteq> [] then n else ''Turkish'') \<rparr>"

text \<open>
  \<^verbatim>\<open>translateText\<close> of src/services/geminiService.ts. \<open>apiKey\<close> is
  \<^verbatim>\<open>process.env.API_KEY\<close> (\<open>None\<close> for \<^verbatim>\<open>undefined\<close>). The result is the settled
  promise (\<open>Inl\<close> the message of the thrown \<^verbatim>\<open>Error\<close>) and the list of requests sent
  to the model.
\<close>

definition translateText ::
  "string option \<Rightarrow> (GenRequest \<Rightarrow> jsval option) \<Rightarrow> string \<Rightarrow> Language \<Rightarrow> Language \<Rightarrow> UiLanguage
     \<Rightarrow> (string + RawResult) \<times> GenRequest list" where
  "translateText apiKey gen text sourceLang targetLang uiLang =
     (if apiKey = None \<or> apiKey = Some [] then (Inl API_KEY_MISSING, [])
      else if trim text = [] then (Inr emptyResult, [])
      else let req = mkRequest ''gemini-2.5-flash-lite'' text sourceLang targetLang uiLang
           in (callModel gen req text, [req]))"

text \<open>
  The earlier \<^verbatim>\<open>translateText\<close> (second document of src/i18n.ts, lines 137-203): the
  client is built when the module loads and the function does not look at the key.
\<close>

definition translateText_early ::
  "(GenRequest \<Rightarrow> jsval option) \<Rightarrow> string \<Rightarrow> Language \<Rightarrow> Language \<Rightarrow> UiLanguage
     \<Rightarrow> (string + RawResult) \<times> GenRequest list" where
  "translateText_early gen text sourceLang targetLang uiLang =
     (if trim text = [] then (Inr emptyResult, [])
      else let req = mkRequest ''gemini-2.5-flash'' text sourceLang targetLang uiLang
           in (callModel gen req text, [req]))"

section \<open>The App component (src/unnamed/part_000)\<close>

text \<open>
  The state both revisions of the App share: the \<^verbatim>\<open>useState\<close> cells the
  orchestration reads and writes, and \<open>calls\<close>, the log of the calls of
  \<^verbatim>\<open>translateText\<close> issued so far (oldest first), which the code does not hold but
  the environment observes.
\<close>

record ('s, 'l) Ui =
  sourceText :: string
  sourceLang :: Language
  targetLang :: Language
  result :: "('s, 'l) TranslationResult option"
  isLoading :: bool
  error :: string
  isMeaningVisible :: bool
  calls :: "(string \<times> Language \<times> Language \<times> UiLanguage) list"

text \<open>
  part_000 adds \<^verbatim>\<open>showAlternatives\<close> and the ref \<^verbatim>\<open>requestGenerationRef\<close> (a
  JavaScript number that only ever counts up by one; exact below \<open>2^53\<close>).
\<close>

record ('s, 'l) App = "('s, 'l) Ui" +
  showAlternatives :: bool
  requestGeneration :: nat

type_synonym TypedApp = "(string, string list) App"

text \<open>Lines 19-30: the state of the first render.\<close>

definition initialApp :: "('s, 'l) App" where
  "initialApp = \<lparr> sourceText = [], sourceLang = Ku, targetLang = Tr, result = None,
     isLoading = False, error = [], isMeaningVisible = False, calls = [],
     showAlternatives = False, requestGeneration = 0 \<rparr>"

text \<open>
  \<^verbatim>\<open>performTranslation\<close> (lines 32-60) is an async function: it runs up to the
  \<^verbatim>\<open>await\<close> when invoked, and its continuation runs when the promise settles.
  \<open>performTranslation_dispatch\<close> is the part before the \<^verbatim>\<open>await\<close>, on the values
  the closure captured; it returns the generation it took (\<open>None\<close> when it returned
  early).
\<close>

definition performTranslation_dispatch ::
  "string \<Rightarrow> Language \<Rightarrow> Language \<Rightarrow> UiLanguage \<Rightarrow> ('s, 'l) App \<Rightarrow> ('s, 'l) App \<times> nat option" where
  "performTranslation_dispatch debouncedSourceText srcL tgtL uiLang s =
     (if trim debouncedSourceText = [] then (s\<lparr>result := None, error := []\<rparr>, None)
      else let currentGeneration = requestGeneration s + 1
           in (s\<lparr>requestGeneration := currentGeneration, isLoading := True, error := [],
                  calls := calls s @ [(debouncedSourceText, srcL, tgtL, uiLang)]\<rparr>,
               Some currentGeneration))"

text \<open>
  The continuation (lines 44-59) for the request that took \<open>currentGeneration\<close>, when
  its promise settles with \<open>outcome\<close> (\<open>Inl\<close> the message of the error thrown); \<open>t\<close>
  is the lookup function of the UI string table the closure captured.
\<close>

definition performTranslation_settle ::
  "(string \<Rightarrow> string) \<Rightarrow> nat \<Rightarrow> string + ('s, 'l) TranslationResult \<Rightarrow> ('s, 'l) App \<Rightarrow> ('s, 'l) App" where
  "performTranslation_settle t currentGeneration outcome s =
     (let s1 = (case outcome of
                  Inr translation \<Rightarrow>
                    if currentGeneration = requestGeneration s
                    then s\<lparr>result := Some translation, isMeaningVisible := False,
                           showAlternatives := False\<rparr>
                    else s
                | Inl message \<Rightarrow>
                    if currentGeneration = requestGeneration s
                    then s\<lparr>error := (if message = API_KEY_MISSING then t ''apiKeyMissingError''
                                       else t ''apiError''),
                           result := None\<rparr>
                    else s)
      in if currentGeneration = requestGeneration s1 then s1\<lparr>isLoading := False\<rparr> else s1)"

text \<open>Several promises settling one after the other.\<close>

fun settleAll ::
  "(string \<Rightarrow> string) \<Rightarrow> (nat \<times> (string + ('s, 'l) TranslationResult)) list \<Rightarrow> ('s, 'l) App
     \<Rightarrow> ('s, 'l) App" where
  "settleAll t [] s = s"
| "settleAll t ((g, outcome) # cs) s = settleAll t cs (performTranslation_settle t g outcome s)"

text \<open>
  What happens to the orchestrator over time: the effect of lines 62-64 invokes
  \<^verbatim>\<open>performTranslation\<close> on the values of a render, or the promise of an earlier
  invocation settles.
\<close>

datatype ('s, 'l) AppEvent =
    Reconcile string Language Language UiLanguage
  | Settle nat "string + ('s, 'l) TranslationResult"

fun appStep :: "(string \<Rightarrow> string) \<Rightarrow> ('s, 'l) App \<Rightarrow> ('s, 'l) AppEvent \<Rightarrow> ('s, 'l) App" where
  "appStep t s (Reconcile debouncedSourceText srcL tgtL uiLang) =
     fst (performTranslation_dispatch debouncedSourceText srcL tgtL uiLang s)"
| "appStep t s (Settle g outcome) = performTranslation_settle t g outcome s"

definition appRun :: "(string \<Rightarrow> string) \<Rightarrow> ('s, 'l) App \<Rightarrow> ('s, 'l) AppEvent list \<Rightarrow> ('s, 'l) App" where
  "appRun t s evs = foldl (appStep t) s evs"

text \<open>
  Lines 60-64, the only place that invokes \<^verbatim>\<open>performTranslation\<close>. The callback is
  memoised on \<^verbatim>\<open>[debouncedSourceText, sourceLang, targetLang, uiLang, t]\<close>, and
  \<^verbatim>\<open>t\<close> on the UI language (src/i18n.ts), so a render yields a new callback
  exactly when one of the four values differs from the render before. The effect is
  keyed on the callback: it runs after the first render and after every render with a
  new callback. The first component of the state is what React remembers of the last
  run: the four values, \<open>None\<close> before the first render.
\<close>

type_synonym RequestArgs = "string \<times> Language \<times> Language \<times> UiLanguage"

fun reconcileEffect ::
  "string \<Rightarrow> Language \<Rightarrow> Language \<Rightarrow> UiLanguage \<Rightarrow> RequestArgs option \<times> ('s, 'l) App
     \<Rightarrow> RequestArgs option \<times> ('s, 'l) App" where
  "reconcileEffect debouncedSourceText srcL tgtL uiLang (deps, s) =
     (if deps = Some (debouncedSourceText, srcL, tgtL, uiLang) then (deps, s)
      else (Some (debouncedSourceText, srcL, tgtL, uiLang),
            fst (performTranslation_dispatch debouncedSourceText srcL tgtL uiLang s)))"

text \<open>Lines 66-70: the effect that runs after a render in which a language changed.\<close>

definition langEffect :: "('s, 'l) App \<Rightarrow> ('s, 'l) App" where
  "langEffect s =
     (if sourceLang s = targetLang s
      then s\<lparr>targetLang := (if sourceLang s = Ku then En else Ku)\<rparr>
      else s)"

text \<open>The two \<^verbatim>\<open>select\<close> handlers (lines 134 and 150).\<close>

definition setSourceLang :: "Language \<Rightarrow> ('s, 'l) App \<Rightarrow> ('s, 'l) App" where
  "setSourceLang l s = s\<lparr>sourceLang := l\<rparr>"

definition setTargetLang :: "Language \<Rightarrow> ('s, 'l) App \<Rightarrow> ('s, 'l) App" where
  "setTargetLang l s = s\<lparr>targetLang := l\<rparr>"

text \<open>
  Lines 72-76. \<^verbatim>\<open>result?.mainTranslation || ''\<close> is the translation when there is a
  result and its translation is not the empty string, else the empty string.
\<close>

definition handleSwapLanguages :: "TypedApp \<Rightarrow> TypedApp" where
  "handleSwapLanguages s =
     s\<lparr>sourceLang := targetLang s,
       targetLang := sourceLang s,
       sourceText := (case result s of
                        None \<Rightarrow> []
                      | Some r \<Rightarrow> if mainTranslation r \<noteq> [] then mainTranslation r else [])\<rparr>"

text \<open>Lines 84-90.\<close>

definition handleAlternativeClick :: "string \<Rightarrow> TypedApp \<Rightarrow> TypedApp" where
  "handleAlternativeClick alternative s =
     (case result s of
        None \<Rightarrow> s
      | Some r \<Rightarrow>
          let currentMain = mainTranslation r;
              newAlternatives = filter (\<lambda>t. t \<noteq> alternative) (alternativeTranslations r) @ [currentMain]
          in s\<lparr>result := Some (r\<lparr>mainTranslation := alternative,
                                  alternativeTranslations := newAlternatives\<rparr>)\<rparr>)"

section \<open>The App that keeps a request key (third document of src/services/geminiService.ts)\<close>

record ('s, 'l) AppKeyed = "('s, 'l) Ui" +
  lastRequestRef :: string

text \<open>Lines 252-262 of that file.\<close>

definition initialAppKeyed :: "('s, 'l) AppKeyed" where
  "initialAppKeyed = \<lparr> sourceText = [], sourceLang = Auto, targetLang = Ku, result = None,
     isLoading = False, error = [], isMeaningVisible = False, calls = [],
     lastRequestRef = [] \<rparr>"

text \<open>Line 265: the template string.\<close>

definition requestKey :: "string \<Rightarrow> Language \<Rightarrow> Language \<Rightarrow> UiLanguage \<Rightarrow> string" where
  "requestKey debouncedSourceText srcL tgtL uiLang =
     debouncedSourceText @ '':'' @ langCode srcL @ '':'' @ langCode tgtL @ '':'' @ uiLangCode uiLang"

text \<open>
  Lines 264-276, up to the \<^verbatim>\<open>await\<close>; the flag tells whether the call was
  dispatched.
\<close>

definition performTranslation_keyed ::
  "string \<Rightarrow> Language \<Rightarrow> Language \<Rightarrow> UiLanguage \<Rightarrow> ('s, 'l) AppKeyed \<Rightarrow> ('s, 'l) AppKeyed \<times> bool" where
  "performTranslation_keyed debouncedSourceText srcL tgtL uiLang s =
     (let key = requestKey debouncedSourceText srcL tgtL uiLang
      in if trim debouncedSourceText = [] \<or> lastRequestRef s = key
         then ((if trim debouncedSourceText = [] then s\<lparr>result := None, error := []\<rparr> else s), False)
         else (s\<lparr>isLoading := True, error := [], lastRequestRef := key,
                 calls := calls s @ [(debouncedSourceText, srcL, tgtL, uiLang)]\<rparr>, True))"

section \<open>The debounce hook (src/unnamed/part_000, lines 6-15)\<close>

text \<open>
  Time is a count of milliseconds. The browser's timer table holds the pending
  timeouts: the identifier \<^verbatim>\<open>setTimeout\<close> returned, the time from which the callback
  may run, and the \<^verbatim>\<open>value\<close> the callback captured.
\<close>

record Timer =
  timerId :: nat
  due :: nat
  captured :: string

text \<open>
  The hook's state: the arguments of the last render, the \<^verbatim>\<open>useState\<close> cell, the
  timer table, the next free identifier, the identifier the pending cleanup holds, and
  \<open>changedAt\<close>, the time of the last render whose dependencies differed.
\<close>

record Debounce =
  hookValue :: string
  hookDelay :: nat
  debouncedValue :: string
  timers :: "Timer list"
  nextTimerId :: nat
  handler :: "nat option"
  changedAt :: nat

definition setTimeout :: "nat \<Rightarrow> Debounce \<Rightarrow> Debounce" where
  "setTimeout now s =
     s\<lparr>timers := timers s @ [\<lparr>timerId = nextTimerId s, due = now + hookDelay s,
                                captured = hookValue s\<rparr>],
       nextTimerId := nextTimerId s + 1\<rparr>"

definition clearTimeout :: "nat \<Rightarrow> Debounce \<Rightarrow> Debounce" where
  "clearTimeout h s = s\<lparr>timers := filter (\<lambda>x. timerId x \<noteq> h) (timers s)\<rparr>"

text \<open>Lines 9-11: the effect body.\<close>

definition useDebounce_effect :: "nat \<Rightarrow> Debounce \<Rightarrow> Debounce" where
  "useDebounce_effect now s = (setTimeout now s)\<lparr>handler := Some (nextTimerId s)\<rparr>"

text \<open>Line 12: the cleanup the effect returned.\<close>

definition useDebounce_cleanup :: "Debounce \<Rightarrow> Debounce" where
  "useDebounce_cleanup s =
     (case handler s of None \<Rightarrow> s | Some h \<Rightarrow> (clearTimeout h s)\<lparr>handler := None\<rparr>)"

text \<open>The first render: line 7 and the first run of the effect.\<close>

definition useDebounce_mount :: "string \<Rightarrow> nat \<Rightarrow> nat \<Rightarrow> Debounce" where
  "useDebounce_mount v d now =
     useDebounce_effect now
       \<lparr> hookValue = v, hookDelay = d, debouncedValue = v, timers = [], nextTimerId = 0,
         handler = None, changedAt = now \<rparr>"

text \<open>
  A later render with arguments \<open>v\<close> and \<open>d\<close>: when a dependency of line 13 differs,
  the cleanup runs and then the effect, on the new arguments.
\<close>

definition useDebounce_render :: "string \<Rightarrow> nat \<Rightarrow> nat \<Rightarrow> Debounce \<Rightarrow> Debounce" where
  "useDebounce_render v d now s =
     (if v = hookValue s \<and> d = hookDelay s then s
      else useDebounce_effect now ((useDebounce_cleanup s)\<lparr>hookValue := v, hookDelay := d, changedAt := now\<rparr>))"

text \<open>
  The browser at time \<open>now\<close>: every timeout that is due runs its callback (line 10), in
  the order of the table, and leaves the table.
\<close>

definition timersFire :: "nat \<Rightarrow> Debounce \<Rightarrow> Debounce" where
  "timersFire now s =
     (foldl (\<lambda>a x. a\<lparr>debouncedValue := captured x\<rparr>) s (filter (\<lambda>x. due x \<le> now) (timers s)))
       \<lparr>timers := filter (\<lambda>x. \<not> due x \<le> now) (timers s)\<rparr>"

text \<open>Teardown of the component: the cleanup runs.\<close>

definition useDebounce_unmount :: "Debounce \<Rightarrow> Debounce" where
  "useDebounce_unmount s = useDebounce_cleanup s"

text \<open>Line 29: the delay the App passes.\<close>

definition debounceDelay :: nat where
  "debounceDelay = 750"

text \<open>What can happen to a mounted hook, with the time at which it happens.\<close>

datatype DebounceEvent = Render string nat | Fire nat

text \<open>
  \<open>Render v now\<close>: the App renders at time \<open>now\<close> with \<^verbatim>\<open>sourceText\<close> equal to \<open>v\<close>;
  the delay \<open>d\<close> it passes is the same in every render.
\<close>

fun debounceStep :: "nat \<Rightarrow> Debounce \<Rightarrow> DebounceEvent \<Rightarrow> Debounce" where
  "debounceStep d s (Render v now) = useDebounce_render v d now s"
| "debounceStep d s (Fire now) = timersFire now s"

text \<open>The hook mounted at time \<open>t0\<close> with value \<open>v\<close>, then the events in order.\<close>

definition debounceRun :: "string \<Rightarrow> nat \<Rightarrow> nat \<Rightarrow> DebounceEvent list \<Rightarrow> Debounce" where
  "debounceRun v d t0 evs = foldl (debounceStep d) (useDebounce_mount v d t0) evs"

text \<open>
  The contract of the debouncer in the words of the specification, with no timer in
  it, to compare the hook with: the source value, the time it last changed, and the
  debounced value. A render with another value changes the source and the time; the
  debounced value takes the source value at a moment that lies at least the delay
  after the last change, and at no other moment.
\<close>

record DebounceSpec =
  specSource :: string
  specChangedAt :: nat
  specDebounced :: string

fun specStep :: "nat \<Rightarrow> DebounceSpec \<Rightarrow> DebounceEvent \<Rightarrow> DebounceSpec" where
  "specStep d p (Render v now) =
     (if v = specSource p then p else p\<lparr>specSource := v, specChangedAt := now\<rparr>)"
| "specStep d p (Fire now) =
     (if specChangedAt p + d \<le> now then p\<lparr>specDebounced := specSource p\<rparr> else p)"

definition specRun :: "string \<Rightarrow> nat \<Rightarrow> nat \<Rightarrow> DebounceEvent list \<Rightarrow> DebounceSpec" where
  "specRun v d t0 evs =
     foldl (specStep d) \<lparr>specSource = v, specChangedAt = t0, specDebounced = v\<rparr> evs"

text \<open>
  Read off the events alone: the value of the last render (\<open>v\<close> when there is
  none), and the time of the last render whose value differed from the one before
  (\<open>t\<close> when there is none).
\<close>

fun lastRendered :: "string \<Rightarrow> DebounceEvent list \<Rightarrow> string" where
  "lastRendered v [] = v"
| "lastRendered v (Render v' now # evs) = lastRendered v' evs"
| "lastRendered v (Fire now # evs) = lastRendered v evs"

fun lastChanged :: "string \<Rightarrow> nat \<Rightarrow> DebounceEvent list \<Rightarrow> nat" where
  "lastChanged v t [] = t"
| "lastChanged v t (Render v' now # evs) =
     (if v' = v then lastChanged v t evs else lastChanged v' now evs)"
| "lastChanged v t (Fire now # evs) = lastChanged v t evs"

text \<open>What the contract sees of the hook.\<close>

definition observed :: "Debounce \<Rightarrow> DebounceSpec" where
  "observed s = \<lparr>specSource = hookValue s, specChangedAt = changedAt s,
                  specDebounced = debouncedValue s\<rparr>"

text \<open>
  What holds of a mounted hook between events: no timeout is pending and the debounced
  value is the current value, or exactly one is pending, the one the cleanup holds,
  set when the value last changed and carrying the current value.
\<close>

definition debounceInv :: "Debounce \<Rightarrow> bool" where
  "debounceInv s =
     (case timers s of
        [] \<Rightarrow> debouncedValue s = hookValue s
      | x # xs \<Rightarrow> xs = [] \<and> handler s = Some (timerId x)
                 \<and> due x = changedAt s + hookDelay s \<and> captured x = hookValue s)"

text \<open>A model that answers every request with the same parsed value.\<close>

definition modelReturning :: "jsval \<Rightarrow> GenRequest \<Rightarrow> jsval option" where
  "modelReturning v req = Some v"

section \<open>Helper facts\<close>

subsection \<open>The orchestrator\<close>

lemma settle_stale:
  "g \<noteq> requestGeneration s \<Longrightarrow> performTranslation_settle t g outcome s = s"
  by (simp add: performTranslation_settle_def split: sum.splits)

lemma settle_generation:
  "requestGeneration (performTranslation_settle t g outcome s) = requestGeneration s"
  by (simp add: performTranslation_settle_def Let_def split: sum.splits)

lemma dispatch_generation:
  "requestGeneration (fst (performTranslation_dispatch text srcL tgtL ul s))
     = (if trim text = [] then requestGeneration s else requestGeneration s + 1)"
  by (simp add: performTranslation_dispatch_def Let_def)

lemma appRun_generation_mono:
  "requestGeneration s \<le> requestGeneration (appRun t s evs)"
  unfolding appRun_def
proof (induction evs arbitrary: s)
  case Nil
  show ?case by simp
next
  case (Cons e evs)
  have "requestGeneration s \<le> requestGeneration (appStep t s e)"
    by (cases e) (simp_all add: dispatch_generation settle_generation)
  also have "\<dots> \<le> requestGeneration (foldl (appStep t) (appStep t s e) evs)"
    by (rule Cons.IH)
  finally show ?case by simp
qed

lemma settleAll_stale:
  "\<forall>c \<in> set cs. fst c \<noteq> requestGeneration s \<Longrightarrow> settleAll t cs s = s"
  by (induction cs arbitrary: s) (auto simp: settle_stale)

subsection \<open>The translation service\<close>

lemma js_or_defined: "d \<noteq> JUndefined \<Longrightarrow> js_or x d \<noteq> JUndefined"
  by (cases x) (simp_all add: js_or_def)

lemma js_or_missing: "js_or JUndefined d = d"
  by (simp add: js_or_def)

lemma buildResult_fields:
  assumes "buildResult text r = Some res"
  shows "\<exists>dl cs mt al me.
           getProp r ''detectedLanguage'' = Some dl \<and> detectedLanguage res = js_or dl (JStr [])
         \<and> getProp r ''correctedSourceText'' = Some cs \<and> correctedSourceText res = js_or cs (JStr text)
         \<and> getProp r ''mainTranslation'' = Some mt \<and> mainTranslation res = js_or mt (JStr [])
         \<and> getProp r ''alternativeTranslations'' = Some al \<and> alternativeTranslations res = js_or al (JArr [])
         \<and> getProp r ''meaningExplanation'' = Some me \<and> meaningExplanation res = js_or me (JStr [])"
  using assms unfolding buildResult_def
  by (auto split: option.splits)

lemma callModel_Inr:
  "callModel gen req text = Inr res \<Longrightarrow> gen req = Some r \<Longrightarrow> buildResult text r = Some res"
  by (simp add: callModel_def split: option.splits)

lemma translateText_nonblank:
  "trim text \<noteq> [] \<Longrightarrow> fst (translateText apiKey gen text srcL tgtL ul) = Inr res \<Longrightarrow>
   fst (translateText apiKey gen text srcL tgtL ul)
     = callModel gen (mkRequest ''gemini-2.5-flash-lite'' text srcL tgtL ul) text"
  by (simp add: translateText_def Let_def split: if_splits)

lemma translateText_early_nonblank:
  "trim text \<noteq> [] \<Longrightarrow>
   fst (translateText_early gen text srcL tgtL ul)
     = callModel gen (mkRequest ''gemini-2.5-flash'' text srcL tgtL ul) text"
  by (simp add: translateText_early_def Let_def)

subsection \<open>The debounce hook\<close>

lemma inv_mount: "debounceInv (useDebounce_mount v d now)"
  by (simp add: debounceInv_def useDebounce_mount_def useDebounce_effect_def setTimeout_def)

lemma cleanup_timers: "debounceInv s \<Longrightarrow> timers (useDebounce_cleanup s) = []"
  by (auto simp: debounceInv_def useDebounce_cleanup_def clearTimeout_def
      split: list.splits option.splits)

lemma cleanup_fields:
  "nextTimerId (useDebounce_cleanup s) = nextTimerId s"
  "debouncedValue (useDebounce_cleanup s) = debouncedValue s"
  "hookDelay (useDebounce_cleanup s) = hookDelay s"
  by (simp_all add: useDebounce_cleanup_def clearTimeout_def split: option.splits)

lemma render_changed:
  assumes "debounceInv s" and "v \<noteq> hookValue s \<or> d \<noteq> hookDelay s"
  shows "timers (useDebounce_render v d now s) = [\<lparr>timerId = nextTimerId s, due = now + d, captured = v\<rparr>]"
    and "handler (useDebounce_render v d now s) = Some (nextTimerId s)"
    and "changedAt (useDebounce_render v d now s) = now"
    and "hookValue (useDebounce_render v d now s) = v"
    and "hookDelay (useDebounce_render v d now s) = d"
  using assms
  by (auto simp: useDebounce_render_def useDebounce_effect_def setTimeout_def
      cleanup_timers cleanup_fields)

lemma inv_render: "debounceInv s \<Longrightarrow> debounceInv (useDebounce_render v d now s)"
proof (cases "v = hookValue s \<and> d = hookDelay s")
  case True
  assume "debounceInv s"
  with True show ?thesis by (simp add: useDebounce_render_def)
next
  case False
  assume "debounceInv s"
  with False show ?thesis
    using render_changed [of s v d now] by (simp add: debounceInv_def)
qed

lemma render_delay: "hookDelay (useDebounce_render v d now s) = d"
  by (simp add: useDebounce_render_def useDebounce_effect_def setTimeout_def)

lemma render_debounced: "debouncedValue (useDebounce_render v d now s) = debouncedValue s"
  by (simp add: useDebounce_render_def useDebounce_effect_def setTimeout_def cleanup_fields)

lemma fire_early:
  assumes "debounceInv s" and "now < changedAt s + hookDelay s"
  shows "timersFire now s = s"
  using assms
  by (auto simp: debounceInv_def timersFire_def split: list.splits)

lemma fire_due:
  assumes "debounceInv s" and "changedAt s + hookDelay s \<le> now"
  shows "debouncedValue (timersFire now s) = hookValue s"
    and "timers (timersFire now s) = []"
  using assms
  by (auto simp: debounceInv_def timersFire_def split: list.splits)

lemma fire_fields:
  "hookValue (timersFire now s) = hookValue s"
  "hookDelay (timersFire now s) = hookDelay s"
  "changedAt (timersFire now s) = changedAt s"
  "handler (timersFire now s) = handler s"
proof -
  have *: "\<And>xs a. hookValue (foldl (\<lambda>a x. a\<lparr>debouncedValue := captured x\<rparr>) a xs) = hookValue a
          \<and> hookDelay (foldl (\<lambda>a x. a\<lparr>debouncedValue := captured x\<rparr>) a xs) = hookDelay a
          \<and> changedAt (foldl (\<lambda>a x. a\<lparr>debouncedValue := captured x\<rparr>) a xs) = changedAt a
          \<and> handler (foldl (\<lambda>a x. a\<lparr>debouncedValue := captured x\<rparr>) a xs) = handler a"
    subgoal for xs a by (induction xs arbitrary: a) simp_all
    done
  show "hookValue (timersFire now s) = hookValue s"
    "hookDelay (timersFire now s) = hookDelay s"
    "changedAt (timersFire now s) = changedAt s"
    "handler (timersFire now s) = handler s"
    by (simp_all add: timersFire_def *)
qed

lemma inv_fire: "debounceInv s \<Longrightarrow> debounceInv (timersFire now s)"
proof (cases "now < changedAt s + hookDelay s")
  case True
  assume "debounceInv s"
  with True show ?thesis by (simp add: fire_early)
next
  case False
  assume "debounceInv s"
  with False show ?thesis
    using fire_due [of s now] by (simp add: debounceInv_def fire_fields)
qed

lemma run_inv_aux:
  "debounceInv s \<Longrightarrow> hookDelay s = d \<Longrightarrow>
   debounceInv (foldl (debounceStep d) s evs) \<and> hookDelay (foldl (debounceStep d) s evs) = d"
proof (induction evs arbitrary: s)
  case Nil
  then show ?case by simp
next
  case (Cons e evs)
  show ?case
  proof (cases e)
    case (Render v now)
    then show ?thesis
      using Cons.IH [of "useDebounce_render v d now s"] Cons.prems
      by (simp add: inv_render render_delay)
  next
    case (Fire now)
    then show ?thesis
      using Cons.IH [of "timersFire now s"] Cons.prems
      by (simp add: inv_fire fire_fields)
  qed
qed

lemma run_inv:
  "debounceInv (debounceRun v d t0 evs)" "hookDelay (debounceRun v d t0 evs) = d"
proof -
  have "hookDelay (useDebounce_mount v d t0) = d"
    by (simp add: useDebounce_mount_def useDebounce_effect_def setTimeout_def)
  then show "debounceInv (debounceRun v d t0 evs)" "hookDelay (debounceRun v d t0 evs) = d"
    using run_inv_aux [OF inv_mount, of v d t0 d evs] by (simp_all add: debounceRun_def)
qed

lemma fire_no_timers: "timers s = [] \<Longrightarrow> timersFire now s = s"
  by (simp add: timersFire_def)

lemma observed_step:
  assumes "debounceInv s" and "hookDelay s = d"
  shows "observed (debounceStep d s e) = specStep d (observed s) e"
proof (cases e)
  case (Render v now)
  show ?thesis
  proof (cases "v = hookValue s")
    case True
    with Render assms show ?thesis by (simp add: observed_def useDebounce_render_def)
  next
    case False
    with Render assms render_changed [of s v d now] show ?thesis
      by (simp add: observed_def render_debounced)
  qed
next
  case (Fire now)
  show ?thesis
  proof (cases "changedAt s + d \<le> now")
    case True
    with Fire assms fire_due(1) [of s now] show ?thesis
      by (simp add: observed_def fire_fields)
  next
    case False
    with Fire assms fire_early [of s now] show ?thesis
      by (simp add: observed_def)
  qed
qed

lemma observed_run_aux:
  "debounceInv s \<Longrightarrow> hookDelay s = d \<Longrightarrow>
   observed (foldl (debounceStep d) s evs) = foldl (specStep d) (observed s) evs"
proof (induction evs arbitrary: s)
  case Nil
  show ?case by simp
next
  case (Cons e evs)
  have i: "debounceInv (debounceStep d s e)" and h: "hookDelay (debounceStep d s e) = d"
    using run_inv_aux [OF Cons.prems, of "[e]"] by simp_all
  show ?case
    using Cons.IH [OF i h] observed_step [OF Cons.prems, of e] by simp
qed

lemma observed_run: "observed (debounceRun v d t0 evs) = specRun v d t0 evs"
proof -
  have h: "hookDelay (useDebounce_mount v d t0) = d"
    by (simp add: useDebounce_mount_def useDebounce_effect_def setTimeout_def)
  have o: "observed (useDebounce_mount v d t0) = \<lparr>specSource = v, specChangedAt = t0, specDebounced = v\<rparr>"
    by (simp add: observed_def useDebounce_mount_def useDebounce_effect_def setTimeout_def)
  show ?thesis
    using observed_run_aux [OF inv_mount h, of evs] o
    by (simp add: debounceRun_def specRun_def)
qed

lemma spec_source_aux:
  "specSource (foldl (specStep d) p evs) = lastRendered (specSource p) evs
   \<and> specChangedAt (foldl (specStep d) p evs) = lastChanged (specSource p) (specChangedAt p) evs"
proof (induction evs arbitrary: p)
  case Nil
  show ?case by simp
next
  case (Cons e evs)
  show ?case
    using Cons.IH [of "specStep d p e"] by (cases e) simp_all
qed

lemma spec_source:
  "specSource (specRun v d t0 evs) = lastRendered v evs"
  "specChangedAt (specRun v d t0 evs) = lastChanged v t0 evs"
  using spec_source_aux [of d "\<lparr>specSource = v, specChangedAt = t0, specDebounced = v\<rparr>" evs]
  by (simp_all add: specRun_def)

lemma run_observed_fields:
  "hookValue (debounceRun v d t0 evs) = lastRendered v evs"
  "changedAt (debounceRun v d t0 evs) = lastChanged v t0 evs"
  "debouncedValue (debounceRun v d t0 evs) = specDebounced (specRun v d t0 evs)"
proof -
  have o: "observed (debounceRun v d t0 evs) = specRun v d t0 evs"
    by (rule observed_run)
  have "specSource (observed (debounceRun v d t0 evs)) = hookValue (debounceRun v d t0 evs)"
    "specChangedAt (observed (debounceRun v d t0 evs)) = changedAt (debounceRun v d t0 evs)"
    "specDebounced (observed (debounceRun v d t0 evs)) = debouncedValue (debounceRun v d t0 evs)"
    by (simp_all add: observed_def)
  then show "hookValue (debounceRun v d t0 evs) = lastRendered v evs"
    "changedAt (debounceRun v d t0 evs) = lastChanged v t0 evs"
    "debouncedValue (debounceRun v d t0 evs) = specDebounced (specRun v d t0 evs)"
    using o by (simp_all add: spec_source)
qed

section \<open>The orchestrator's properties\<close>

text \<open>
  C1. A promise that settles for generation \<open>g\<close> when the current generation is another
  one changes nothing: not \<^verbatim>\<open>result\<close>, not \<^verbatim>\<open>error\<close>, nor any other cell. So
  a stale completion and the completion of the current request give the same state in
  either order. And in every execution where \<open>g\<close> was taken at or before a state \<open>s\<close>,
  whatever happens next (\<open>before\<close>), once a newer request is dispatched and whatever
  happens after that (\<open>after\<close>), the completion of \<open>g\<close> is a no-op.
\<close>

theorem stale_completion_discard:
  "(g \<noteq> requestGeneration s \<longrightarrow>
      performTranslation_settle t g outcome s = s
    \<and> result (performTranslation_settle t g outcome s) = result s
    \<and> error (performTranslation_settle t g outcome s) = error s
    \<and> performTranslation_settle t (requestGeneration s) latest (performTranslation_settle t g outcome s)
        = performTranslation_settle t (requestGeneration s) latest s
    \<and> performTranslation_settle t g outcome (performTranslation_settle t (requestGeneration s) latest s)
        = performTranslation_settle t (requestGeneration s) latest s)
   \<and> (g \<le> requestGeneration s \<and> trim text \<noteq> [] \<longrightarrow>
        performTranslation_settle t g outcome
          (appRun t (fst (performTranslation_dispatch text srcL tgtL ul (appRun t s before))) after)
        = appRun t (fst (performTranslation_dispatch text srcL tgtL ul (appRun t s before))) after)"
proof (intro conjI impI)
  assume a: "g \<le> requestGeneration s \<and> trim text \<noteq> []"
  let ?m = "appRun t s before"
  let ?d = "fst (performTranslation_dispatch text srcL tgtL ul ?m)"
  have "requestGeneration s \<le> requestGeneration ?m"
    by (rule appRun_generation_mono)
  moreover have "requestGeneration ?d = requestGeneration ?m + 1"
    using a by (simp add: dispatch_generation)
  moreover have "requestGeneration ?d \<le> requestGeneration (appRun t ?d after)"
    by (rule appRun_generation_mono)
  ultimately have "g \<noteq> requestGeneration (appRun t ?d after)"
    using a by linarith
  then show "performTranslation_settle t g outcome (appRun t ?d after) = appRun t ?d after"
    by (rule settle_stale)
qed (simp_all add: settle_stale settle_generation)

text \<open>
  C1, at a concrete execution: the request for \<open>''a''\<close> takes generation 1, the request
  for \<open>''ab''\<close> is dispatched after it, and then the first one succeeds.
\<close>

theorem stale_completion_discard_witness:
  "(1::nat) \<le> requestGeneration (fst (performTranslation_dispatch ''a'' Ku Tr UiTr (initialApp :: TypedApp)))
   \<and> trim ''ab'' \<noteq> []
   \<and> performTranslation_settle id 1
        (Inr \<lparr>detectedLanguage = [], correctedSourceText = ''a'', mainTranslation = ''x'',
              alternativeTranslations = [], meaningExplanation = []\<rparr>)
        (fst (performTranslation_dispatch ''ab'' Ku Tr UiTr
          (fst (performTranslation_dispatch ''a'' Ku Tr UiTr (initialApp :: TypedApp)))))
      = \<lparr>sourceText = [], sourceLang = Ku, targetLang = Tr, result = None, isLoading = True,
         error = [], isMeaningVisible = False,
         calls = [(''a'', Ku, Tr, UiTr), (''ab'', Ku, Tr, UiTr)],
         showAlternatives = False, requestGeneration = 2\<rparr>"
proof -
  have g: "(1::nat) \<le> requestGeneration (fst (performTranslation_dispatch ''a'' Ku Tr UiTr (initialApp :: TypedApp)))"
    by (simp add: performTranslation_dispatch_def initialApp_def trim_def isWhiteSpace_def Let_def)
  have t: "trim ''ab'' \<noteq> []"
    by (simp add: trim_def isWhiteSpace_def)
  have e: "fst (performTranslation_dispatch ''ab'' Ku Tr UiTr
          (fst (performTranslation_dispatch ''a'' Ku Tr UiTr (initialApp :: TypedApp))))
      = \<lparr>sourceText = [], sourceLang = Ku, targetLang = Tr, result = None, isLoading = True,
         error = [], isMeaningVisible = False,
         calls = [(''a'', Ku, Tr, UiTr), (''ab'', Ku, Tr, UiTr)],
         showAlternatives = False, requestGeneration = 2\<rparr>"
    by (simp add: performTranslation_dispatch_def initialApp_def trim_def isWhiteSpace_def Let_def)
  show ?thesis
    using g t e
      stale_completion_discard [of 1 "fst (performTranslation_dispatch ''a'' Ku Tr UiTr (initialApp :: TypedApp))"
        id "Inr \<lparr>detectedLanguage = [], correctedSourceText = ''a'', mainTranslation = ''x'',
              alternativeTranslations = [], meaningExplanation = []\<rparr>" "Inl []" "''ab''" Ku Tr UiTr "[]" "[]"]
    by (simp add: appRun_def)
qed

text \<open>
  C2. \<^verbatim>\<open>performTranslation\<close> of part_000 is invoked by the effect of lines 62-64
  only, which React runs again only when one of the four values differs from the last
  run. So a second reconcile on the same four values changes nothing: it dispatches no
  call and takes no generation. Of two consecutive reconciles on the same non-blank
  four values, the first of them new, exactly one call is made, by the first. In the
  App that keeps \<^verbatim>\<open>lastRequestRef\<close> the function itself compares the request key:
  an invocation whose key equals the key dispatched last returns without dispatching
  and changes nothing, and of two consecutive invocations, the first of them new, the
  first dispatches one call and the second none.
\<close>

theorem duplicate_suppression:
  assumes "trim text \<noteq> []"
  shows "reconcileEffect text srcL tgtL ul (reconcileEffect text srcL tgtL ul m)
           = reconcileEffect text srcL tgtL ul m
       \<and> fst (reconcileEffect text srcL tgtL ul m) = Some (text, srcL, tgtL, ul)
       \<and> (fst m \<noteq> Some (text, srcL, tgtL, ul) \<longrightarrow>
            calls (snd (reconcileEffect text srcL tgtL ul m)) = calls (snd m) @ [(text, srcL, tgtL, ul)]
          \<and> calls (snd (reconcileEffect text srcL tgtL ul (reconcileEffect text srcL tgtL ul m)))
              = calls (snd m) @ [(text, srcL, tgtL, ul)]
          \<and> requestGeneration (snd (reconcileEffect text srcL tgtL ul (reconcileEffect text srcL tgtL ul m)))
              = requestGeneration (snd m) + 1)
       \<and> (lastRequestRef s = requestKey text srcL tgtL ul \<longrightarrow>
            performTranslation_keyed text srcL tgtL ul s = (s, False))
       \<and> (lastRequestRef s \<noteq> requestKey text srcL tgtL ul \<longrightarrow>
            snd (performTranslation_keyed text srcL tgtL ul s)
          \<and> calls (fst (performTranslation_keyed text srcL tgtL ul s)) = calls s @ [(text, srcL, tgtL, ul)]
          \<and> performTranslation_keyed text srcL tgtL ul (fst (performTranslation_keyed text srcL tgtL ul s))
              = (fst (performTranslation_keyed text srcL tgtL ul s), False))"
  using assms
  by (cases m) (simp add: performTranslation_keyed_def performTranslation_dispatch_def Let_def)

text \<open>
  C2, at the first two reconciles on \<open>''a''\<close>, of part_000 after mounting and of the
  keyed App: one call, generation 1, and no dispatch by the second.
\<close>

theorem duplicate_suppression_witness:
  "trim ''a'' \<noteq> []
   \<and> fst (None :: RequestArgs option, initialApp :: TypedApp) \<noteq> Some (''a'', Ku, Tr, UiTr)
   \<and> calls (snd (reconcileEffect ''a'' Ku Tr UiTr
        (reconcileEffect ''a'' Ku Tr UiTr (None, initialApp :: TypedApp)))) = [(''a'', Ku, Tr, UiTr)]
   \<and> requestGeneration (snd (reconcileEffect ''a'' Ku Tr UiTr
        (reconcileEffect ''a'' Ku Tr UiTr (None, initialApp :: TypedApp)))) = 1
   \<and> lastRequestRef (initialAppKeyed :: (string, string list) AppKeyed) \<noteq> requestKey ''a'' Ku Tr UiTr
   \<and> calls (fst (performTranslation_keyed ''a'' Ku Tr UiTr (initialAppKeyed :: (string, string list) AppKeyed)))
       = [(''a'', Ku, Tr, UiTr)]
   \<and> snd (performTranslation_keyed ''a'' Ku Tr UiTr
        (fst (performTranslation_keyed ''a'' Ku Tr UiTr (initialAppKeyed :: (string, string list) AppKeyed)))) = False"
proof -
  have t: "trim ''a'' \<noteq> []" by (simp add: trim_def isWhiteSpace_def)
  have n: "fst (None :: RequestArgs option, initialApp :: TypedApp) \<noteq> Some (''a'', Ku, Tr, UiTr)"
    by simp
  have k: "lastRequestRef (initialAppKeyed :: (string, string list) AppKeyed) \<noteq> requestKey ''a'' Ku Tr UiTr"
    by (simp add: initialAppKeyed_def requestKey_def)
  have c: "calls (initialAppKeyed :: (string, string list) AppKeyed) = []"
    "calls (initialApp :: TypedApp) = []" "requestGeneration (initialApp :: TypedApp) = 0"
    by (simp_all add: initialAppKeyed_def initialApp_def)
  from duplicate_suppression [OF t, of Ku Tr UiTr "(None, initialApp :: TypedApp)"
      "initialAppKeyed :: (string, string list) AppKeyed"]
  have "calls (snd (reconcileEffect ''a'' Ku Tr UiTr
        (reconcileEffect ''a'' Ku Tr UiTr (None, initialApp :: TypedApp)))) = calls (initialApp :: TypedApp) @ [(''a'', Ku, Tr, UiTr)]
    \<and> requestGeneration (snd (reconcileEffect ''a'' Ku Tr UiTr
        (reconcileEffect ''a'' Ku Tr UiTr (None, initialApp :: TypedApp)))) = requestGeneration (initialApp :: TypedApp) + 1
    \<and> calls (fst (performTranslation_keyed ''a'' Ku Tr UiTr (initialAppKeyed :: (string, string list) AppKeyed)))
       = calls (initialAppKeyed :: (string, string list) AppKeyed) @ [(''a'', Ku, Tr, UiTr)]
    \<and> snd (performTranslation_keyed ''a'' Ku Tr UiTr
        (fst (performTranslation_keyed ''a'' Ku Tr UiTr (initialAppKeyed :: (string, string list) AppKeyed)))) = False"
    using n k by simp
  with t n k c show ?thesis by simp
qed

text \<open>
  C3, as stated, fails: the empty-input branch does not touch \<^verbatim>\<open>isLoading\<close>. After
  a request for \<open>''a''\<close> is dispatched, a reconcile on the empty text leaves
  \<^verbatim>\<open>isLoading\<close> true.
\<close>

theorem empty_input_keeps_loading:
  "trim [] = []
   \<and> isLoading (fst (performTranslation_dispatch [] Ku Tr UiTr
        (fst (performTranslation_dispatch ''a'' Ku Tr UiTr (initialApp :: TypedApp)))))"
  by (simp add: performTranslation_dispatch_def initialApp_def trim_def isWhiteSpace_def Let_def)

text \<open>
  C3, amended. When the debounced text trimmed is empty, the invocation sets
  \<^verbatim>\<open>result\<close> to null and \<^verbatim>\<open>error\<close> to the empty string, leaves \<^verbatim>\<open>isLoading\<close>
  and every other cell as they were, takes no generation, and calls no service.
\<close>

theorem empty_input_reconcile:
  assumes "trim text = []"
  shows "performTranslation_dispatch text srcL tgtL ul s = (s\<lparr>result := None, error := []\<rparr>, None)
       \<and> result (fst (performTranslation_dispatch text srcL tgtL ul s)) = None
       \<and> error (fst (performTranslation_dispatch text srcL tgtL ul s)) = []
       \<and> isLoading (fst (performTranslation_dispatch text srcL tgtL ul s)) = isLoading s
       \<and> calls (fst (performTranslation_dispatch text srcL tgtL ul s)) = calls s
       \<and> requestGeneration (fst (performTranslation_dispatch text srcL tgtL ul s)) = requestGeneration s"
  using assms by (simp add: performTranslation_dispatch_def)

text \<open>C3, amended, on two spaces in the first state.\<close>

theorem empty_input_reconcile_witness:
  "trim ''  '' = []
   \<and> performTranslation_dispatch ''  '' Ku Tr UiTr (initialApp :: TypedApp) = (initialApp, None)"
proof -
  have t: "trim ''  '' = []" by (simp add: trim_def isWhiteSpace_def)
  show ?thesis
    using t empty_input_reconcile [OF t, of Ku Tr UiTr "initialApp :: TypedApp"]
    by (simp add: initialApp_def)
qed

text \<open>
  C4, as stated, fails where it says the source text is not replaced: line 75 writes
  \<^verbatim>\<open>result?.mainTranslation || ''\<close> in every case. With \<open>''roj''\<close> typed and no
  result yet, the swap erases the text.
\<close>

theorem swap_erases_source_text:
  "sourceText ((initialApp :: TypedApp)\<lparr>sourceText := ''roj''\<rparr>) = ''roj''
   \<and> result ((initialApp :: TypedApp)\<lparr>sourceText := ''roj''\<rparr>) = None
   \<and> sourceText (handleSwapLanguages ((initialApp :: TypedApp)\<lparr>sourceText := ''roj''\<rparr>)) = []
   \<and> sourceText (handleSwapLanguages ((initialApp :: TypedApp)\<lparr>sourceText := ''roj''\<rparr>))
       \<noteq> sourceText ((initialApp :: TypedApp)\<lparr>sourceText := ''roj''\<rparr>)"
  by (simp add: handleSwapLanguages_def initialApp_def)

text \<open>
  C4, amended. In every state the swap exchanges the two language selections. When the
  result holds a translation that is not the empty string, the source text becomes that
  translation; when there is no result, or its translation is the empty string, the
  source text becomes the empty string. The result and the call log stay.
\<close>

theorem swap_languages:
  "sourceLang (handleSwapLanguages s) = targetLang s
   \<and> targetLang (handleSwapLanguages s) = sourceLang s
   \<and> (\<forall>r. result s = Some r \<and> mainTranslation r \<noteq> [] \<longrightarrow>
         sourceText (handleSwapLanguages s) = mainTranslation r)
   \<and> (result s = None \<or> (\<exists>r. result s = Some r \<and> mainTranslation r = []) \<longrightarrow>
         sourceText (handleSwapLanguages s) = [])
   \<and> result (handleSwapLanguages s) = result s
   \<and> calls (handleSwapLanguages s) = calls s"
  by (auto simp: handleSwapLanguages_def split: option.splits)

text \<open>C4, amended, on a state that holds the translation \<open>''gun''\<close> of \<open>''roj''\<close>.\<close>

theorem swap_languages_witness:
  "result ((initialApp :: TypedApp)\<lparr>sourceText := ''roj'', result := Some \<lparr>detectedLanguage = [], correctedSourceText = ''roj'',
       mainTranslation = ''gun'', alternativeTranslations = [], meaningExplanation = []\<rparr>\<rparr>)
     = Some \<lparr>detectedLanguage = [], correctedSourceText = ''roj'',
       mainTranslation = ''gun'', alternativeTranslations = [], meaningExplanation = []\<rparr>
   \<and> sourceText (handleSwapLanguages ((initialApp :: TypedApp)\<lparr>sourceText := ''roj'', result := Some \<lparr>detectedLanguage = [], correctedSourceText = ''roj'',
       mainTranslation = ''gun'', alternativeTranslations = [], meaningExplanation = []\<rparr>\<rparr>)) = ''gun''
   \<and> sourceLang (handleSwapLanguages ((initialApp :: TypedApp)\<lparr>sourceText := ''roj'', result := Some \<lparr>detectedLanguage = [], correctedSourceText = ''roj'',
       mainTranslation = ''gun'', alternativeTranslations = [], meaningExplanation = []\<rparr>\<rparr>)) = Tr
   \<and> targetLang (handleSwapLanguages ((initialApp :: TypedApp)\<lparr>sourceText := ''roj'', result := Some \<lparr>detectedLanguage = [], correctedSourceText = ''roj'',
       mainTranslation = ''gun'', alternativeTranslations = [], meaningExplanation = []\<rparr>\<rparr>)) = Ku"
  using swap_languages [of "(initialApp :: TypedApp)\<lparr>sourceText := ''roj'', result := Some \<lparr>detectedLanguage = [], correctedSourceText = ''roj'',
       mainTranslation = ''gun'', alternativeTranslations = [], meaningExplanation = []\<rparr>\<rparr>"]
  by (simp add: initialApp_def)

text \<open>
  C5. After a swap, a change of the source selection or a change of the target
  selection, followed by the effect of lines 66-70, the source and the target language
  differ; the effect never changes the source; when the two are equal it sets the
  target to \<open>En\<close> if the source is \<open>Ku\<close> and to \<open>Ku\<close> otherwise; when they differ it
  changes nothing.
\<close>

theorem language_distinctness:
  "sourceLang (langEffect (handleSwapLanguages s)) \<noteq> targetLang (langEffect (handleSwapLanguages s))
   \<and> sourceLang (langEffect (setSourceLang l a)) \<noteq> targetLang (langEffect (setSourceLang l a))
   \<and> sourceLang (langEffect (setTargetLang l a)) \<noteq> targetLang (langEffect (setTargetLang l a))
   \<and> sourceLang (langEffect a) \<noteq> targetLang (langEffect a)
   \<and> sourceLang (langEffect a) = sourceLang a
   \<and> (sourceLang a = targetLang a \<longrightarrow>
        targetLang (langEffect a) = (if sourceLang a = Ku then En else Ku))
   \<and> (sourceLang a \<noteq> targetLang a \<longrightarrow> langEffect a = a)"
  by (simp add: langEffect_def)

text \<open>
  C5, where the selections become equal: the source set to \<open>Tr\<close> against the target
  \<open>Tr\<close>, and the target set to \<open>Ku\<close> against the source \<open>Ku\<close>.
\<close>

theorem language_distinctness_witness:
  "sourceLang (setSourceLang Tr (initialApp :: TypedApp)) = targetLang (setSourceLang Tr (initialApp :: TypedApp))
   \<and> targetLang (langEffect (setSourceLang Tr (initialApp :: TypedApp))) = Ku
   \<and> sourceLang (langEffect (setSourceLang Tr (initialApp :: TypedApp))) = Tr
   \<and> sourceLang (setTargetLang Ku (initialApp :: TypedApp)) = targetLang (setTargetLang Ku (initialApp :: TypedApp))
   \<and> targetLang (langEffect (setTargetLang Ku (initialApp :: TypedApp))) = En"
  using language_distinctness [of initialApp Tr "setSourceLang Tr (initialApp :: TypedApp)"]
        language_distinctness [of initialApp Tr "setTargetLang Ku (initialApp :: TypedApp)"]
  by (simp add: initialApp_def setSourceLang_def setTargetLang_def)

text \<open>
  C6. With main translation \<open>M\<close> and alternatives \<open>[A, B]\<close>, pairwise distinct,
  promoting \<open>A\<close> makes \<open>A\<close> the main translation and \<open>[B, M]\<close> the alternatives:
  the set \<open>{B, M}\<close>, without duplicates. The other three fields of the result, the
  call log and the generation stay: only the result cell is written.
\<close>

theorem promote_alternative:
  assumes "result s = Some r"
    and "mainTranslation r = M"
    and "alternativeTranslations r = [A, B]"
    and "A \<noteq> B" and "A \<noteq> M" and "B \<noteq> M"
  shows "handleAlternativeClick A s
           = s\<lparr>result := Some (r\<lparr>mainTranslation := A, alternativeTranslations := [B, M]\<rparr>)\<rparr>
       \<and> (\<exists>r'. result (handleAlternativeClick A s) = Some r'
            \<and> mainTranslation r' = A
            \<and> set (alternativeTranslations r') = {B, M}
            \<and> distinct (alternativeTranslations r')
            \<and> correctedSourceText r' = correctedSourceText r
            \<and> meaningExplanation r' = meaningExplanation r
            \<and> detectedLanguage r' = detectedLanguage r)
       \<and> calls (handleAlternativeClick A s) = calls s
       \<and> requestGeneration (handleAlternativeClick A s) = requestGeneration s"
  using assms by (auto simp: handleAlternativeClick_def Let_def)

text \<open>C6, with \<open>M = ''m''\<close>, \<open>A = ''a''\<close> and \<open>B = ''b''\<close>.\<close>

theorem promote_alternative_witness:
  "''a'' \<noteq> ''b'' \<and> ''a'' \<noteq> ''m'' \<and> ''b'' \<noteq> ''m''
   \<and> handleAlternativeClick ''a''
        ((initialApp :: TypedApp)\<lparr>result := Some \<lparr>detectedLanguage = [], correctedSourceText = ''c'',
           mainTranslation = ''m'', alternativeTranslations = [''a'', ''b''], meaningExplanation = ''e''\<rparr>\<rparr>)
      = (initialApp :: TypedApp)\<lparr>result := Some \<lparr>detectedLanguage = [], correctedSourceText = ''c'',
           mainTranslation = ''a'', alternativeTranslations = [''b'', ''m''], meaningExplanation = ''e''\<rparr>\<rparr>"
proof -
  have d: "''a'' \<noteq> ''b''" "''a'' \<noteq> ''m''" "''b'' \<noteq> ''m''" by simp_all
  show ?thesis
    using d promote_alternative [of "(initialApp :: TypedApp)\<lparr>result := Some \<lparr>detectedLanguage = [], correctedSourceText = ''c'',
           mainTranslation = ''m'', alternativeTranslations = [''a'', ''b''], meaningExplanation = ''e''\<rparr>\<rparr>"
        "\<lparr>detectedLanguage = [], correctedSourceText = ''c'',
           mainTranslation = ''m'', alternativeTranslations = [''a'', ''b''], meaningExplanation = ''e''\<rparr>"
        "''m''" "''a''" "''b''"]
    by simp
qed

section \<open>The translation service's properties\<close>

text \<open>
  C7, as stated, fails for \<^verbatim>\<open>correctedSourceText\<close>: when the parsed response is the
  empty object, so that the field is missing, the service called on \<open>''a''\<close> returns
  \<open>''a''\<close> in that field and not the empty string.
\<close>

theorem missing_corrected_text_counterexample:
  "getProp (JObj []) ''correctedSourceText'' = Some JUndefined
   \<and> fst (translateText (Some ''k'') (modelReturning (JObj [])) ''a'' Ku Tr UiTr)
       = Inr \<lparr>detectedLanguage = JStr [], correctedSourceText = JStr ''a'', mainTranslation = JStr [],
              alternativeTranslations = JArr [], meaningExplanation = JStr []\<rparr>
   \<and> JStr ''a'' \<noteq> JStr []"
  by (simp add: translateText_def trim_def isWhiteSpace_def callModel_def modelReturning_def
        buildResult_def js_or_def Let_def)

text \<open>
  C7, amended. When either revision of the service returns a result built from the
  parsed value \<open>r\<close>, a field missing from \<open>r\<close> is the empty string for
  \<^verbatim>\<open>detectedLanguage\<close>, \<^verbatim>\<open>mainTranslation\<close> and \<^verbatim>\<open>meaningExplanation\<close>, the
  empty array for \<^verbatim>\<open>alternativeTranslations\<close>, and the input text for
  \<^verbatim>\<open>correctedSourceText\<close>; and no field of the result is \<^verbatim>\<open>undefined\<close>.
\<close>

theorem response_defaulting:
  assumes "trim text \<noteq> []"
    and "fst (translateText apiKey gen text srcL tgtL ul) = Inr res
           \<and> gen (mkRequest ''gemini-2.5-flash-lite'' text srcL tgtL ul) = Some r
         \<or> fst (translateText_early gen text srcL tgtL ul) = Inr res
           \<and> gen (mkRequest ''gemini-2.5-flash'' text srcL tgtL ul) = Some r"
  shows "(getProp r ''detectedLanguage'' = Some JUndefined \<longrightarrow> detectedLanguage res = JStr [])
       \<and> (getProp r ''correctedSourceText'' = Some JUndefined \<longrightarrow> correctedSourceText res = JStr text)
       \<and> (getProp r ''mainTranslation'' = Some JUndefined \<longrightarrow> mainTranslation res = JStr [])
       \<and> (getProp r ''alternativeTranslations'' = Some JUndefined \<longrightarrow> alternativeTranslations res = JArr [])
       \<and> (getProp r ''meaningExplanation'' = Some JUndefined \<longrightarrow> meaningExplanation res = JStr [])
       \<and> detectedLanguage res \<noteq> JUndefined
       \<and> correctedSourceText res \<noteq> JUndefined
       \<and> mainTranslation res \<noteq> JUndefined
       \<and> alternativeTranslations res \<noteq> JUndefined
       \<and> meaningExplanation res \<noteq> JUndefined"
proof -
  have b: "buildResult text r = Some res"
  proof -
    from assms(2) show ?thesis
    proof
      assume a: "fst (translateText apiKey gen text srcL tgtL ul) = Inr res
           \<and> gen (mkRequest ''gemini-2.5-flash-lite'' text srcL tgtL ul) = Some r"
      then have "callModel gen (mkRequest ''gemini-2.5-flash-lite'' text srcL tgtL ul) text = Inr res"
        using translateText_nonblank [OF assms(1), of apiKey gen srcL tgtL ul res] by simp
      with a show ?thesis by (simp add: callModel_Inr)
    next
      assume a: "fst (translateText_early gen text srcL tgtL ul) = Inr res
           \<and> gen (mkRequest ''gemini-2.5-flash'' text srcL tgtL ul) = Some r"
      then have "callModel gen (mkRequest ''gemini-2.5-flash'' text srcL tgtL ul) text = Inr res"
        using translateText_early_nonblank [OF assms(1), of gen srcL tgtL ul] by simp
      with a show ?thesis by (simp add: callModel_Inr)
    qed
  qed
  from buildResult_fields [OF b] obtain dl cs mt al me where f:
    "getProp r ''detectedLanguage'' = Some dl" "detectedLanguage res = js_or dl (JStr [])"
    "getProp r ''correctedSourceText'' = Some cs" "correctedSourceText res = js_or cs (JStr text)"
    "getProp r ''mainTranslation'' = Some mt" "mainTranslation res = js_or mt (JStr [])"
    "getProp r ''alternativeTranslations'' = Some al" "alternativeTranslations res = js_or al (JArr [])"
    "getProp r ''meaningExplanation'' = Some me" "meaningExplanation res = js_or me (JStr [])"
    by blast
  show ?thesis
    using f by (simp add: js_or_defined js_or_missing)
qed

text \<open>
  C7, amended, on a response that holds only \<^verbatim>\<open>mainTranslation\<close>: the missing
  \<^verbatim>\<open>meaningExplanation\<close> is the empty string.
\<close>

theorem response_defaulting_witness:
  "trim ''a'' \<noteq> []
   \<and> getProp (JObj [(''mainTranslation'', JStr ''x'')]) ''meaningExplanation'' = Some JUndefined
   \<and> fst (translateText (Some ''k'') (modelReturning (JObj [(''mainTranslation'', JStr ''x'')])) ''a'' Ku Tr UiTr)
       = Inr \<lparr>detectedLanguage = JStr [], correctedSourceText = JStr ''a'', mainTranslation = JStr ''x'',
              alternativeTranslations = JArr [], meaningExplanation = JStr []\<rparr>
   \<and> meaningExplanation \<lparr>detectedLanguage = JStr [], correctedSourceText = JStr ''a'', mainTranslation = JStr ''x'',
              alternativeTranslations = JArr [], meaningExplanation = JStr []\<rparr> = JStr []"
proof -
  have t: "trim ''a'' \<noteq> []" by (simp add: trim_def isWhiteSpace_def)
  have g: "modelReturning (JObj [(''mainTranslation'', JStr ''x'')]) (mkRequest ''gemini-2.5-flash-lite'' ''a'' Ku Tr UiTr)
             = Some (JObj [(''mainTranslation'', JStr ''x'')])"
    by (simp add: modelReturning_def)
  have e: "fst (translateText (Some ''k'') (modelReturning (JObj [(''mainTranslation'', JStr ''x'')])) ''a'' Ku Tr UiTr)
       = Inr \<lparr>detectedLanguage = JStr [], correctedSourceText = JStr ''a'', mainTranslation = JStr ''x'',
              alternativeTranslations = JArr [], meaningExplanation = JStr []\<rparr>"
    by (simp add: translateText_def trim_def isWhiteSpace_def callModel_def modelReturning_def
        buildResult_def js_or_def Let_def)
  have p: "getProp (JObj [(''mainTranslation'', JStr ''x'')]) ''meaningExplanation'' = Some JUndefined"
    by simp
  from response_defaulting [OF t disjI1 [OF conjI [OF e g]]]
  have "meaningExplanation \<lparr>detectedLanguage = JStr [], correctedSourceText = JStr ''a'', mainTranslation = JStr ''x'',
              alternativeTranslations = JArr [], meaningExplanation = JStr []\<rparr> = JStr []"
    using p by blast
  with t p e show ?thesis by blast
qed

text \<open>
  C8. A request is dispatched on non-blank text while the API key is absent
  (\<^verbatim>\<open>undefined\<close> or the empty string), and is still the latest one when its promise
  settles, whatever completions of other generations arrive in between (\<open>stale\<close>).
  Then the service fails with \<^verbatim>\<open>API_KEY_MISSING\<close> without calling the model, and
  the continuation sets \<^verbatim>\<open>error\<close> to \<^verbatim>\<open>t('apiKeyMissingError')\<close>, \<^verbatim>\<open>result\<close> to
  null and \<^verbatim>\<open>isLoading\<close> to false. A failure with any other message gives
  \<^verbatim>\<open>t('apiError')\<close>, null and false. The continuation is a total function of the
  outcome: every failure ends in a state, none goes further.
\<close>

theorem configuration_error_mapping:
  fixes s :: "(jsval, jsval) App"
    and t :: "string \<Rightarrow> string"
    and input :: string and srcL tgtL :: Language and ul :: UiLanguage
    and stale :: "(nat \<times> (string + RawResult)) list"
  assumes "apiKey = None \<or> apiKey = Some []"
    and "trim input \<noteq> []"
    and "\<forall>c \<in> set stale. fst c \<noteq> requestGeneration s + 1"
  defines "g \<equiv> requestGeneration s + 1"
  defines "s1 \<equiv> settleAll t stale (fst (performTranslation_dispatch input srcL tgtL ul s))"
  shows "snd (performTranslation_dispatch input srcL tgtL ul s) = Some g
       \<and> translateText apiKey gen input srcL tgtL ul = (Inl API_KEY_MISSING, [])
       \<and> error (performTranslation_settle t g (fst (translateText apiKey gen input srcL tgtL ul)) s1)
           = t ''apiKeyMissingError''
       \<and> result (performTranslation_settle t g (fst (translateText apiKey gen input srcL tgtL ul)) s1) = None
       \<and> \<not> isLoading (performTranslation_settle t g (fst (translateText apiKey gen input srcL tgtL ul)) s1)
       \<and> (\<forall>m. m \<noteq> API_KEY_MISSING \<longrightarrow>
            error (performTranslation_settle t g (Inl m) s1) = t ''apiError''
          \<and> result (performTranslation_settle t g (Inl m) s1) = None
          \<and> \<not> isLoading (performTranslation_settle t g (Inl m) s1))"
proof -
  let ?d = "fst (performTranslation_dispatch input srcL tgtL ul s)"
  have gen: "requestGeneration ?d = g"
    using assms(2) by (simp add: performTranslation_dispatch_def Let_def g_def)
  have "\<forall>c \<in> set stale. fst c \<noteq> requestGeneration ?d"
    using assms(3) gen by (simp add: g_def)
  then have s1: "s1 = ?d"
    unfolding s1_def by (rule settleAll_stale)
  have tt: "translateText apiKey gen input srcL tgtL ul = (Inl API_KEY_MISSING, [])"
    using assms(1) by (auto simp: translateText_def)
  have sn: "snd (performTranslation_dispatch input srcL tgtL ul s) = Some g"
    using assms(2) by (simp add: performTranslation_dispatch_def Let_def g_def)
  show ?thesis
    using gen tt sn by (simp add: s1 performTranslation_settle_def Let_def)
qed

text \<open>
  C8, at a concrete execution without a key: the request for \<open>''ab''\<close> takes
  generation 2, the older request fails late, then the request for \<open>''ab''\<close> fails.
\<close>

theorem configuration_error_mapping_witness:
  "trim ''ab'' \<noteq> []
   \<and> fst (1::nat, Inl serviceFailure :: string + RawResult)
       \<noteq> requestGeneration (fst (performTranslation_dispatch ''a'' Ku Tr UiTr (initialApp :: (jsval, jsval) App))) + 1
   \<and> performTranslation_settle id 2 (fst (translateText None (modelReturning JNull) ''ab'' Ku Tr UiTr))
        (settleAll id [(1, Inl serviceFailure)]
          (fst (performTranslation_dispatch ''ab'' Ku Tr UiTr
            (fst (performTranslation_dispatch ''a'' Ku Tr UiTr (initialApp :: (jsval, jsval) App))))))
      = \<lparr>sourceText = [], sourceLang = Ku, targetLang = Tr, result = None, isLoading = False,
         error = ''apiKeyMissingError'', isMeaningVisible = False,
         calls = [(''a'', Ku, Tr, UiTr), (''ab'', Ku, Tr, UiTr)],
         showAlternatives = False, requestGeneration = 2\<rparr>"
proof -
  let ?s = "fst (performTranslation_dispatch ''a'' Ku Tr UiTr (initialApp :: (jsval, jsval) App))"
  have t: "trim ''ab'' \<noteq> []"
    by (simp add: trim_def isWhiteSpace_def)
  have k: "(None :: string option) = None \<or> (None :: string option) = Some []"
    by simp
  have g: "requestGeneration ?s = 1"
    by (simp add: performTranslation_dispatch_def initialApp_def trim_def isWhiteSpace_def Let_def)
  have st: "\<forall>c \<in> set [(1::nat, Inl serviceFailure :: string + RawResult)]. fst c \<noteq> requestGeneration ?s + 1"
    using g by simp
  have e: "performTranslation_settle id 2 (fst (translateText None (modelReturning JNull) ''ab'' Ku Tr UiTr))
        (settleAll id [(1, Inl serviceFailure)] (fst (performTranslation_dispatch ''ab'' Ku Tr UiTr ?s)))
      = \<lparr>sourceText = [], sourceLang = Ku, targetLang = Tr, result = None, isLoading = False,
         error = ''apiKeyMissingError'', isMeaningVisible = False,
         calls = [(''a'', Ku, Tr, UiTr), (''ab'', Ku, Tr, UiTr)],
         showAlternatives = False, requestGeneration = 2\<rparr>"
    by (simp add: performTranslation_dispatch_def performTranslation_settle_def initialApp_def
        trim_def isWhiteSpace_def Let_def translateText_def API_KEY_MISSING_def serviceFailure_def)
  have "error (performTranslation_settle id (requestGeneration ?s + 1)
          (fst (translateText None (modelReturning JNull) ''ab'' Ku Tr UiTr))
          (settleAll id [(1, Inl serviceFailure)] (fst (performTranslation_dispatch ''ab'' Ku Tr UiTr ?s))))
        = id ''apiKeyMissingError''"
    using configuration_error_mapping [OF k t st, where t = id and gen = "modelReturning JNull"] by blast
  with t g e show ?thesis by simp
qed

text \<open>
  C10. On a text whose trimmed form is empty, the service of
  src/services/geminiService.ts with a key present, and the earlier service whatever
  the key, return the result whose four strings are empty and whose alternatives are
  the empty array, and send no request to the model. In src/services/geminiService.ts
  the key is tested first: without a key the same text fails with
  \<^verbatim>\<open>API_KEY_MISSING\<close>, again without a request.
\<close>

theorem service_empty_text:
  assumes "trim text = []"
  shows "(apiKey \<noteq> None \<and> apiKey \<noteq> Some [] \<longrightarrow>
            translateText apiKey gen text srcL tgtL ul = (Inr emptyResult, []))
       \<and> translateText_early gen text srcL tgtL ul = (Inr emptyResult, [])
       \<and> (apiKey = None \<or> apiKey = Some [] \<longrightarrow>
            translateText apiKey gen text srcL tgtL ul = (Inl API_KEY_MISSING, []))"
  using assms by (simp add: translateText_def translateText_early_def)

text \<open>C10, on a single space, with and without a key.\<close>

theorem service_empty_text_witness:
  "trim '' '' = []
   \<and> translateText (Some ''k'') (modelReturning JNull) '' '' Ku Tr UiTr
       = (Inr \<lparr>detectedLanguage = JStr [], correctedSourceText = JStr [], mainTranslation = JStr [],
               alternativeTranslations = JArr [], meaningExplanation = JStr []\<rparr>, [])
   \<and> translateText None (modelReturning JNull) '' '' Ku Tr UiTr = (Inl ''API_KEY_MISSING'', [])"
proof -
  have t: "trim '' '' = []" by (simp add: trim_def isWhiteSpace_def)
  show ?thesis
    using t service_empty_text [OF t, of "Some ''k''" "modelReturning JNull" Ku Tr UiTr]
      service_empty_text [OF t, of None "modelReturning JNull" Ku Tr UiTr]
    by (simp add: emptyResult_def API_KEY_MISSING_def)
qed

section \<open>The debounce hook's properties\<close>

text \<open>
  C9. Let \<open>s\<close> be the hook mounted with \<open>v\<close> at \<open>t0\<close> after any sequence \<open>evs\<close> of
  renders and timer runs, with the App's delay of 750. What the hook shows is what the
  contract gives on the same inputs: its source value is the value of the last render,
  its time of change is the time of the last render with a different value, and its
  debounced value is the contract's, \<open>v\<close> itself when nothing has happened. If the
  timers running at \<open>now\<close> change the debounced value, then the last change of the
  source lies at least 750 before \<open>now\<close>, and the debounced value becomes the last
  rendered value. Before that time the timers change nothing; from that time on they
  leave the debounced value equal to the last rendered value. A render never changes
  the debounced value itself, and a render with a new value leaves exactly one pending
  timeout, the new one, due 750 later: the one scheduled before is cancelled, at most
  one is ever pending, and a pending one carries the last rendered value and is due 750
  after the last change. After teardown no timeout is pending, the timers change
  nothing, and the debounced value is what it was.
\<close>

theorem debounce_contract:
  fixes v :: string and t0 :: nat and evs :: "DebounceEvent list"
  defines "s \<equiv> debounceRun v debounceDelay t0 evs"
  shows "observed s = specRun v 750 t0 evs
       \<and> hookValue s = lastRendered v evs
       \<and> changedAt s = lastChanged v t0 evs
       \<and> debouncedValue s = specDebounced (specRun v 750 t0 evs)
       \<and> (debouncedValue (timersFire now s) \<noteq> debouncedValue s \<longrightarrow>
            lastChanged v t0 evs + 750 \<le> now
          \<and> debouncedValue (timersFire now s) = lastRendered v evs)
       \<and> (now < lastChanged v t0 evs + 750 \<longrightarrow> timersFire now s = s)
       \<and> (lastChanged v t0 evs + 750 \<le> now \<longrightarrow>
            debouncedValue (timersFire now s) = lastRendered v evs)
       \<and> (v' \<noteq> lastRendered v evs \<longrightarrow>
            timers (useDebounce_render v' debounceDelay now s)
              = [\<lparr>timerId = nextTimerId s, due = now + 750, captured = v'\<rparr>])
       \<and> debouncedValue (useDebounce_render v' debounceDelay now s) = debouncedValue s
       \<and> length (timers s) \<le> 1
       \<and> list_all (\<lambda>x. due x = lastChanged v t0 evs + 750 \<and> captured x = lastRendered v evs) (timers s)
       \<and> timers (useDebounce_unmount s) = []
       \<and> timersFire now (useDebounce_unmount s) = useDebounce_unmount s
       \<and> debouncedValue (useDebounce_unmount s) = debouncedValue s"
proof -
  have i: "debounceInv s" and d: "hookDelay s = 750"
    unfolding s_def using run_inv [of v debounceDelay t0 evs] by (simp_all add: debounceDelay_def)
  have ob: "observed s = specRun v 750 t0 evs"
    unfolding s_def by (simp add: observed_run debounceDelay_def)
  have hv: "hookValue s = lastRendered v evs" and ca: "changedAt s = lastChanged v t0 evs"
    and dv: "debouncedValue s = specDebounced (specRun v 750 t0 evs)"
    unfolding s_def using run_observed_fields [of v debounceDelay t0 evs]
    by (simp_all add: debounceDelay_def)
  have early: "now < lastChanged v t0 evs + 750 \<longrightarrow> timersFire now s = s"
    using fire_early [OF i, of now] d ca by simp
  have late: "lastChanged v t0 evs + 750 \<le> now \<longrightarrow> debouncedValue (timersFire now s) = lastRendered v evs"
    using fire_due(1) [OF i, of now] d ca hv by simp
  have chg: "debouncedValue (timersFire now s) \<noteq> debouncedValue s \<longrightarrow>
            lastChanged v t0 evs + 750 \<le> now \<and> debouncedValue (timersFire now s) = lastRendered v evs"
    using early late by (cases "now < lastChanged v t0 evs + 750") auto
  have upd: "v' \<noteq> lastRendered v evs \<longrightarrow>
            timers (useDebounce_render v' debounceDelay now s)
              = [\<lparr>timerId = nextTimerId s, due = now + 750, captured = v'\<rparr>]"
    using render_changed(1) [OF i, of v' debounceDelay now] hv by (simp add: debounceDelay_def)
  have rd: "debouncedValue (useDebounce_render v' debounceDelay now s) = debouncedValue s"
    by (rule render_debounced)
  have one: "length (timers s) \<le> 1"
    using i by (simp add: debounceInv_def split: list.splits)
  have pend: "list_all (\<lambda>x. due x = lastChanged v t0 evs + 750 \<and> captured x = lastRendered v evs) (timers s)"
    using i d ca hv by (simp add: debounceInv_def split: list.splits)
  have un: "timers (useDebounce_unmount s) = []"
    using i by (simp add: useDebounce_unmount_def cleanup_timers)
  have un2: "timersFire now (useDebounce_unmount s) = useDebounce_unmount s"
    using un by (rule fire_no_timers)
  have un3: "debouncedValue (useDebounce_unmount s) = debouncedValue s"
    by (simp add: useDebounce_unmount_def cleanup_fields)
  show ?thesis
    using ob hv ca dv early late chg upd rd one pend un un2 un3 by blast
qed

text \<open>
  C9, on the hook mounted empty at 0 and rendered with \<open>''a''\<close> at 100 and \<open>''ab''\<close>
  at 200: at 950 the debounced value becomes \<open>''ab''\<close>, at 949 it is still empty; and
  the hook mounted with \<open>''x''\<close> shows \<open>''x''\<close>.
\<close>

theorem debounce_contract_witness:
  "lastChanged [] 0 [Render ''a'' 100, Render ''ab'' 200] + 750 \<le> 950
   \<and> lastRendered [] [Render ''a'' 100, Render ''ab'' 200] = ''ab''
   \<and> debouncedValue (debounceRun [] debounceDelay 0 [Render ''a'' 100, Render ''ab'' 200]) = []
   \<and> debouncedValue (timersFire 950 (debounceRun [] debounceDelay 0 [Render ''a'' 100, Render ''ab'' 200])) = ''ab''
   \<and> debouncedValue (timersFire 950 (debounceRun [] debounceDelay 0 [Render ''a'' 100, Render ''ab'' 200]))
     \<noteq> debouncedValue (debounceRun [] debounceDelay 0 [Render ''a'' 100, Render ''ab'' 200])
   \<and> 949 < lastChanged [] 0 [Render ''a'' 100, Render ''ab'' 200] + 750
   \<and> debouncedValue (timersFire 949 (debounceRun [] debounceDelay 0 [Render ''a'' 100, Render ''ab'' 200])) = []
   \<and> debouncedValue (debounceRun ''x'' debounceDelay 0 []) = ''x''"
proof -
  have c: "lastChanged [] 0 [Render ''a'' 100, Render ''ab'' 200] = 200"
    "lastRendered [] [Render ''a'' 100, Render ''ab'' 200] = ''ab''"
    by simp_all
  have p: "specDebounced (specRun [] 750 0 [Render ''a'' 100, Render ''ab'' 200]) = []"
    "specDebounced (specRun ''x'' 750 0 []) = ''x''"
    by (simp_all add: specRun_def)
  show ?thesis
    using c p debounce_contract [of "[]" 0 "[Render ''a'' 100, Render ''ab'' 200]" 950 "''x''"]
      debounce_contract [of "[]" 0 "[Render ''a'' 100, Render ''ab'' 200]" 949 "''x''"]
      debounce_contract [of "''x''" 0 "[]" 0 "''y''"]
    by simp
qed

end
